theory Spec2Isabelle
  imports Main
begin

section \<open>Run configurations of \<^verbatim>\<open>spyder/preferences/runconfig.py\<close>\<close>

subsection \<open>Python values and exceptions\<close>

text \<open>
  The configuration store keeps Python literals, and the module reads them back without
  checking their type. The values modelled are \<^verbatim>\<open>None\<close>, booleans, integers, strings,
  lists, tuples and dictionaries with string keys (an association list, the first
  binding of a key being the one that counts).
\<close>

datatype pyval =
    PNone
  | PBool bool
  | PInt int
  | PStr string
  | PList "pyval list"
  | PTuple "pyval list"
  | PDict "(string \<times> pyval) list"

datatype error = TypeError | ValueError | AttributeError | OverflowError

text \<open>Truth value of an object, as \<^verbatim>\<open>if x:\<close> tests it.\<close>

fun truthy :: "pyval \<Rightarrow> bool" where
  "truthy PNone = False"
| "truthy (PBool b) = b"
| "truthy (PInt n) = (n \<noteq> 0)"
| "truthy (PStr s) = (s \<noteq> [])"
| "truthy (PList xs) = (xs \<noteq> [])"
| "truthy (PTuple xs) = (xs \<noteq> [])"
| "truthy (PDict kvs) = (kvs \<noteq> [])"

text \<open>The keys of a dictionary, each once, in the order of their first binding.\<close>

definition dict_keys :: "(string \<times> pyval) list \<Rightarrow> string list" where
  "dict_keys kvs = rev (remdups (rev (map fst kvs)))"

text \<open>
  \<^verbatim>\<open>iter(x)\<close>: lists and tuples give their items, a string its characters (each a
  string of length one), a dictionary its keys; the other values are not iterable.
\<close>

fun py_iter :: "pyval \<Rightarrow> error + pyval list" where
  "py_iter (PList xs) = Inr xs"
| "py_iter (PTuple xs) = Inr xs"
| "py_iter (PStr s) = Inr (map (\<lambda>c. PStr [c]) s)"
| "py_iter (PDict kvs) = Inr (map PStr (dict_keys kvs))"
| "py_iter PNone = Inl TypeError"
| "py_iter (PBool b) = Inl TypeError"
| "py_iter (PInt n) = Inl TypeError"

text \<open>
  The target list \<^verbatim>\<open>filename, options\<close> of a \<^verbatim>\<open>for\<close> clause: a value that is not
  iterable raises TypeError, an iterable that does not have exactly two items raises
  ValueError.
\<close>

definition unpack2 :: "pyval \<Rightarrow> error + pyval \<times> pyval" where
  "unpack2 v =
     (case py_iter v of
        Inl e \<Rightarrow> Inl e
      | Inr items \<Rightarrow>
          (case items of
             [a, b] \<Rightarrow> Inr (a, b)
           | _ \<Rightarrow> Inl ValueError))"

text \<open>
  The slice \<^verbatim>\<open>xs[:stop]\<close>. \<^verbatim>\<open>None\<close> keeps the whole list, a negative integer counts
  from the end, a boolean is the integer 0 or 1, anything else is not an index.
\<close>

fun slice_upto :: "'a list \<Rightarrow> pyval \<Rightarrow> error + 'a list" where
  "slice_upto xs PNone = Inr xs"
| "slice_upto xs (PInt n) =
     Inr (if 0 \<le> n then take (nat n) xs else take (length xs - nat (- n)) xs)"
| "slice_upto xs (PBool b) = Inr (take (if b then 1 else 0) xs)"
| "slice_upto xs (PStr s) = Inl TypeError"
| "slice_upto xs (PList ys) = Inl TypeError"
| "slice_upto xs (PTuple ys) = Inl TypeError"
| "slice_upto xs (PDict kvs) = Inl TypeError"

text \<open>\<^verbatim>\<open>d.get(key, default)\<close> on a dictionary.\<close>

definition dict_get :: "(string \<times> pyval) list \<Rightarrow> string \<Rightarrow> pyval \<Rightarrow> pyval" where
  "dict_get kvs key dflt = (case map_of kvs key of Some v \<Rightarrow> v | None \<Rightarrow> dflt)"

subsection \<open>The collaborators: configuration store and file system\<close>

text \<open>
  The object \<^verbatim>\<open>CONF\<close> comes from \<^verbatim>\<open>spyder.config.manager\<close>, which this module imports
  and whose code is not part of it. The store is a map from section and key to the value
  held, all of it state that the functions below take and return.
\<close>

type_synonym config_store = "string \<times> string \<Rightarrow> pyval option"

text \<open>
  Modelled from the spec: \<^verbatim>\<open>CONF.get(section, key, default)\<close> of the configuration
  store, defined in \<^verbatim>\<open>spyder.config.manager\<close>. By the contract the spec gives, a read
  returns the value stored under the key of the named section, or the default handed in
  when nothing is stored, and leaves the store as it is.
\<close>

definition CONF_get :: "config_store \<Rightarrow> string \<Rightarrow> string \<Rightarrow> pyval \<Rightarrow> pyval" where
  "CONF_get conf section key dflt =
     (case conf (section, key) of Some v \<Rightarrow> v | None \<Rightarrow> dflt)"

text \<open>
  Modelled from the spec: \<^verbatim>\<open>CONF.set(section, key, value)\<close> of the configuration store,
  defined in \<^verbatim>\<open>spyder.config.manager\<close>. The value replaces what the key of the named
  section held; every other key keeps its value.
\<close>

definition CONF_set :: "config_store \<Rightarrow> string \<Rightarrow> string \<Rightarrow> pyval \<Rightarrow> config_store" where
  "CONF_set conf section key v = conf((section, key) \<mapsto> v)"

text \<open>
  The file system is a parameter: which paths are regular files, which are directories,
  and which open descriptors are regular files. \<^verbatim>\<open>os.path.isfile\<close> (Python 3.8 and
  later) answers for a string path and for an integer, which it reads as a file
  descriptor of C type int (a boolean is the integer 0 or 1); \<^verbatim>\<open>os.stat\<close> raises
  OverflowError for an integer out of that range and TypeError for every other type.
\<close>

record filesystem =
  is_regular_file :: "string \<Rightarrow> bool"
  is_directory :: "string \<Rightarrow> bool"
  fd_is_regular_file :: "int \<Rightarrow> bool"

definition osp_isfile_fd :: "filesystem \<Rightarrow> int \<Rightarrow> error + bool" where
  "osp_isfile_fd fs n =
     (if - 2147483648 \<le> n \<and> n \<le> 2147483647 then Inr (fd_is_regular_file fs n)
      else Inl OverflowError)"

fun osp_isfile :: "filesystem \<Rightarrow> pyval \<Rightarrow> error + bool" where
  "osp_isfile fs (PStr path) = Inr (is_regular_file fs path)"
| "osp_isfile fs (PInt n) = osp_isfile_fd fs n"
| "osp_isfile fs (PBool b) = osp_isfile_fd fs (if b then 1 else 0)"
| "osp_isfile fs PNone = Inl TypeError"
| "osp_isfile fs (PList xs) = Inl TypeError"
| "osp_isfile fs (PTuple xs) = Inl TypeError"
| "osp_isfile fs (PDict kvs) = Inl TypeError"

definition osp_isdir :: "filesystem \<Rightarrow> string \<Rightarrow> bool" where
  "osp_isdir fs path = is_directory fs path"

subsection \<open>The option keys\<close>

definition CURRENT_INTERPRETER_OPTION :: string where
  "CURRENT_INTERPRETER_OPTION = ''default/interpreter/current''"

definition SYSTERM_INTERPRETER_OPTION :: string where
  "SYSTERM_INTERPRETER_OPTION = ''default/interpreter/systerm''"

definition WDIR_USE_SCRIPT_DIR_OPTION :: string where
  "WDIR_USE_SCRIPT_DIR_OPTION = ''default/wdir/use_script_directory''"

definition WDIR_USE_CWD_DIR_OPTION :: string where
  "WDIR_USE_CWD_DIR_OPTION = ''default/wdir/use_cwd_directory''"

definition WDIR_USE_FIXED_DIR_OPTION :: string where
  "WDIR_USE_FIXED_DIR_OPTION = ''default/wdir/use_fixed_directory''"

subsection \<open>Class \<^verbatim>\<open>RunConfiguration\<close>\<close>

record RunConfiguration =
  args :: pyval
  args_enabled :: pyval
  wdir :: pyval
  wdir_enabled :: pyval
  current :: pyval
  systerm :: pyval
  interact :: pyval
  post_mortem :: pyval
  python_args :: pyval
  python_args_enabled :: pyval
  clear_namespace :: pyval
  console_namespace :: pyval
  file_dir :: pyval
  cw_dir :: pyval
  fixed_dir :: pyval
  dir :: pyval

text \<open>The attributes as \<^verbatim>\<open>__init__\<close> creates them, before it calls \<^verbatim>\<open>set\<close>.\<close>

definition blank :: RunConfiguration where
  "blank =
     \<lparr>args = PNone, args_enabled = PNone, wdir = PNone, wdir_enabled = PNone,
      current = PNone, systerm = PNone, interact = PNone, post_mortem = PNone,
      python_args = PNone, python_args_enabled = PNone, clear_namespace = PNone,
      console_namespace = PNone, file_dir = PNone, cw_dir = PNone, fixed_dir = PNone,
      dir = PNone\<rparr>"

text \<open>
  \<^verbatim>\<open>RunConfiguration.set\<close>. Only a dictionary has the method \<^verbatim>\<open>get\<close>: for any other
  value the first statement raises AttributeError, before any attribute is assigned.
\<close>

fun RunConfiguration_set ::
  "config_store \<Rightarrow> RunConfiguration \<Rightarrow> pyval \<Rightarrow> error + RunConfiguration" where
  "RunConfiguration_set conf self (PDict options) =
     Inr (self
       \<lparr>args := dict_get options ''args'' (PStr ''''),
        args_enabled := dict_get options ''args/enabled'' (PBool False),
        current := dict_get options ''current''
                     (CONF_get conf ''run'' CURRENT_INTERPRETER_OPTION (PBool True)),
        systerm := dict_get options ''systerm''
                     (CONF_get conf ''run'' SYSTERM_INTERPRETER_OPTION (PBool False)),
        interact := dict_get options ''interact''
                     (CONF_get conf ''run'' ''interact'' (PBool False)),
        post_mortem := dict_get options ''post_mortem''
                     (CONF_get conf ''run'' ''post_mortem'' (PBool False)),
        python_args := dict_get options ''python_args'' (PStr ''''),
        python_args_enabled := dict_get options ''python_args/enabled'' (PBool False),
        clear_namespace := dict_get options ''clear_namespace''
                     (CONF_get conf ''run'' ''clear_namespace'' (PBool False)),
        console_namespace := dict_get options ''console_namespace''
                     (CONF_get conf ''run'' ''console_namespace'' (PBool False)),
        file_dir := dict_get options ''file_dir''
                     (CONF_get conf ''run'' WDIR_USE_SCRIPT_DIR_OPTION (PBool True)),
        cw_dir := dict_get options ''cw_dir''
                     (CONF_get conf ''run'' WDIR_USE_CWD_DIR_OPTION (PBool False)),
        fixed_dir := dict_get options ''fixed_dir''
                     (CONF_get conf ''run'' WDIR_USE_FIXED_DIR_OPTION (PBool False)),
        dir := dict_get options ''dir'' (PStr '''')\<rparr>)"
| "RunConfiguration_set conf self PNone = Inl AttributeError"
| "RunConfiguration_set conf self (PBool b) = Inl AttributeError"
| "RunConfiguration_set conf self (PInt n) = Inl AttributeError"
| "RunConfiguration_set conf self (PStr s) = Inl AttributeError"
| "RunConfiguration_set conf self (PList xs) = Inl AttributeError"
| "RunConfiguration_set conf self (PTuple xs) = Inl AttributeError"

text \<open>\<^verbatim>\<open>RunConfiguration.__init__\<close>; its parameter \<^verbatim>\<open>fname\<close> is not used.\<close>

definition RunConfiguration_init :: "config_store \<Rightarrow> error + RunConfiguration" where
  "RunConfiguration_init conf =
     RunConfiguration_set conf blank (CONF_get conf ''run'' ''defaultconfiguration'' (PDict []))"

definition RunConfiguration_get :: "RunConfiguration \<Rightarrow> pyval" where
  "RunConfiguration_get self =
     PDict
       [(''args/enabled'', args_enabled self),
        (''args'', args self),
        (''workdir/enabled'', wdir_enabled self),
        (''workdir'', wdir self),
        (''current'', current self),
        (''systerm'', systerm self),
        (''interact'', interact self),
        (''post_mortem'', post_mortem self),
        (''python_args/enabled'', python_args_enabled self),
        (''python_args'', python_args self),
        (''clear_namespace'', clear_namespace self),
        (''console_namespace'', console_namespace self),
        (''file_dir'', file_dir self),
        (''cw_dir'', cw_dir self),
        (''fixed_dir'', fixed_dir self),
        (''dir'', dir self)]"

definition get_working_directory :: "RunConfiguration \<Rightarrow> pyval" where
  "get_working_directory self = dir self"

definition get_arguments :: "RunConfiguration \<Rightarrow> pyval" where
  "get_arguments self = (if truthy (args_enabled self) then args self else PStr '''')"

definition get_python_arguments :: "RunConfiguration \<Rightarrow> pyval" where
  "get_python_arguments self =
     (if truthy (python_args_enabled self) then python_args self else PStr '''')"

subsection \<open>The history of run configurations\<close>

text \<open>
  The comprehension of \<^verbatim>\<open>_get_run_configurations\<close>, one stored item at a time: unpack
  the item into \<^verbatim>\<open>filename, options\<close>, test \<^verbatim>\<open>osp.isfile(filename)\<close>, keep the
  pair \<^verbatim>\<open>(filename, options)\<close> when the test holds. The first exception ends it.
\<close>

fun existing_entries :: "filesystem \<Rightarrow> pyval list \<Rightarrow> error + (pyval \<times> pyval) list" where
  "existing_entries fs [] = Inr []"
| "existing_entries fs (item # items) =
     (case unpack2 item of
        Inl e \<Rightarrow> Inl e
      | Inr (filename, options) \<Rightarrow>
          (case osp_isfile fs filename of
             Inl e \<Rightarrow> Inl e
           | Inr keep \<Rightarrow>
               (case existing_entries fs items of
                  Inl e \<Rightarrow> Inl e
                | Inr rest \<Rightarrow> Inr (if keep then (filename, options) # rest else rest))))"

text \<open>The expression inside \<^verbatim>\<open>try\<close>: iterate the stored value, filter, slice.\<close>

definition read_history ::
  "filesystem \<Rightarrow> config_store \<Rightarrow> pyval \<Rightarrow> error + (pyval \<times> pyval) list" where
  "read_history fs conf history_count =
     (case py_iter (CONF_get conf ''run'' ''configurations'' (PList [])) of
        Inl e \<Rightarrow> Inl e
      | Inr items \<Rightarrow>
          (case existing_entries fs items of
             Inl e \<Rightarrow> Inl e
           | Inr entries \<Rightarrow> slice_upto entries history_count))"

text \<open>
  \<^verbatim>\<open>_get_run_configurations\<close>: the value returned (or the exception that escapes) and
  the store afterwards. Only ValueError is caught.
\<close>

definition get_run_configurations ::
  "filesystem \<Rightarrow> config_store \<Rightarrow> (error + (pyval \<times> pyval) list) \<times> config_store" where
  "get_run_configurations fs conf =
     (let history_count = CONF_get conf ''run'' ''history'' (PInt 20) in
      case read_history fs conf history_count of
        Inr configurations \<Rightarrow> (Inr configurations, conf)
      | Inl e \<Rightarrow>
          (if e = ValueError
           then (Inr [], CONF_set conf ''run'' ''configurations'' (PList []))
           else (Inl e, conf)))"

text \<open>A pair \<^verbatim>\<open>(filename, options)\<close> of the list, as the tuple that is stored.\<close>

definition entry_tuple :: "pyval \<times> pyval \<Rightarrow> pyval" where
  "entry_tuple entry = PTuple [fst entry, snd entry]"

definition set_run_configurations ::
  "(pyval \<times> pyval) list \<Rightarrow> config_store \<Rightarrow> error + config_store" where
  "set_run_configurations configurations conf =
     (let history_count = CONF_get conf ''run'' ''history'' (PInt 20) in
      case slice_upto configurations history_count of
        Inl e \<Rightarrow> Inl e
      | Inr kept \<Rightarrow> Inr (CONF_set conf ''run'' ''configurations'' (PList (map entry_tuple kept))))"

text \<open>
  The loop of \<^verbatim>\<open>get_run_configuration\<close> over the list read: the first entry whose
  filename equals \<^verbatim>\<open>fname\<close> (a string) gives the result; falling off the end of the
  loop returns \<^verbatim>\<open>None\<close>.
\<close>

fun scan_configurations ::
  "config_store \<Rightarrow> string \<Rightarrow> (pyval \<times> pyval) list \<Rightarrow> error + RunConfiguration option" where
  "scan_configurations conf fname [] = Inr None"
| "scan_configurations conf fname ((filename, options) # rest) =
     (if PStr fname = filename then
        (case RunConfiguration_init conf of
           Inl e \<Rightarrow> Inl e
         | Inr runconf \<Rightarrow>
             (case RunConfiguration_set conf runconf options of
                Inl e \<Rightarrow> Inl e
              | Inr runconf' \<Rightarrow> Inr (Some runconf')))
      else scan_configurations conf fname rest)"

definition get_run_configuration ::
  "filesystem \<Rightarrow> config_store \<Rightarrow> string \<Rightarrow> (error + RunConfiguration option) \<times> config_store" where
  "get_run_configuration fs conf fname =
     (case get_run_configurations fs conf of
        (Inl e, conf') \<Rightarrow> (Inl e, conf')
      | (Inr configurations, conf') \<Rightarrow> (scan_configurations conf' fname configurations, conf'))"

subsection \<open>The options widget and the two dialogs\<close>

text \<open>
  Of the Qt widgets only what the module reads back is kept: whether a check box or a
  radio button is checked, and the text of a line edit. The message boxes shown are
  logged in the state, beside the configuration store.
\<close>

record RunConfigOptions =
  options_dir :: pyval
  runconf :: RunConfiguration
  current_radio :: bool
  dedicated_radio :: bool
  systerm_radio :: bool
  clear_var_cb :: bool
  console_ns_cb :: bool
  post_mortem_cb :: bool
  clo_cb :: bool
  clo_edit :: string
  file_dir_radio :: bool
  cwd_radio :: bool
  fixed_dir_radio :: bool
  wd_edit :: string
  interact_cb :: bool
  pclo_cb :: bool
  pclo_edit :: string
  firstrun_cb :: bool

record world =
  CONF :: config_store
  critical_boxes :: "(string \<times> string) list"

text \<open>
  \<^verbatim>\<open>RunConfigOptions.get\<close> copies the widgets into \<^verbatim>\<open>self.runconf\<close> and returns its
  mapping; \<^verbatim>\<open>to_text_string\<close> leaves a string as it is.
\<close>

definition RunConfigOptions_get :: "RunConfigOptions \<Rightarrow> pyval \<times> RunConfigOptions" where
  "RunConfigOptions_get self =
     (let runconf' = (runconf self)
            \<lparr>args_enabled := PBool (clo_cb self),
             args := PStr (clo_edit self),
             current := PBool (current_radio self),
             systerm := PBool (systerm_radio self),
             interact := PBool (interact_cb self),
             post_mortem := PBool (post_mortem_cb self),
             python_args_enabled := PBool (pclo_cb self),
             python_args := PStr (pclo_edit self),
             clear_namespace := PBool (clear_var_cb self),
             console_namespace := PBool (console_ns_cb self),
             file_dir := PBool (file_dir_radio self),
             cw_dir := PBool (cwd_radio self),
             fixed_dir := PBool (fixed_dir_radio self),
             dir := PStr (wd_edit self)\<rparr>
      in (RunConfiguration_get runconf', self\<lparr>runconf := runconf'\<rparr>))"

text \<open>
  \<^verbatim>\<open>RunConfigOptions.is_valid\<close>. The box shows title and text untranslated, the path
  put in place of \<^verbatim>\<open>%s\<close>.
\<close>

definition is_valid :: "filesystem \<Rightarrow> RunConfigOptions \<Rightarrow> world \<Rightarrow> bool \<times> world" where
  "is_valid fs self w =
     (let wdir = wd_edit self in
      if \<not> fixed_dir_radio self \<or> osp_isdir fs wdir then (True, w)
      else (False,
            w\<lparr>critical_boxes := critical_boxes w @
                 [(''Run configuration'',
                   ''The following working directory is not valid:<br><b>'' @ wdir @ ''</b>'')]\<rparr>))"

text \<open>
  The single-file dialog. \<^verbatim>\<open>filename\<close> and \<^verbatim>\<open>runconfigoptions\<close> are \<^verbatim>\<open>None\<close> until
  \<^verbatim>\<open>setup\<close> has run; \<open>accepted\<close> records that \<^verbatim>\<open>QDialog.accept\<close> was reached.
\<close>

record RunConfigOneDialog =
  filename :: pyval
  runconfigoptions :: "RunConfigOptions option"
  accepted :: bool

definition RunConfigOneDialog_accept ::
  "filesystem \<Rightarrow> RunConfigOneDialog \<Rightarrow> world \<Rightarrow> (error + unit) \<times> RunConfigOneDialog \<times> world" where
  "RunConfigOneDialog_accept fs self w =
     (case runconfigoptions self of
        None \<Rightarrow> (Inl AttributeError, self, w)
      | Some widget \<Rightarrow>
          (case is_valid fs widget w of
             (False, w1) \<Rightarrow> (Inr (), self, w1)
           | (True, w1) \<Rightarrow>
               (case get_run_configurations fs (CONF w1) of
                  (Inl e, conf2) \<Rightarrow> (Inl e, self, w1\<lparr>CONF := conf2\<rparr>)
                | (Inr configurations, conf2) \<Rightarrow>
                    (case RunConfigOptions_get widget of
                       (options, widget') \<Rightarrow>
                         (let self' = self\<lparr>runconfigoptions := Some widget'\<rparr>;
                              configurations' = (filename self, options) # configurations
                          in case set_run_configurations configurations' conf2 of
                               Inl e \<Rightarrow> (Inl e, self', w1\<lparr>CONF := conf2\<rparr>)
                             | Inr conf3 \<Rightarrow>
                                 (Inr (), self'\<lparr>accepted := True\<rparr>, w1\<lparr>CONF := conf3\<rparr>))))))"

text \<open>
  The multi-file dialog: the combo box holds one filename per page of the stack.
  \<^verbatim>\<open>itemText\<close> of an index the combo box does not have is the empty string.
\<close>

record QStackedWidget =
  widgets :: "RunConfigOptions list"
  currentIndex :: int

record RunConfigDialog =
  file_to_run :: pyval
  combo :: "string list option"
  stack :: "QStackedWidget option"
  dialog_accepted :: bool

definition itemText :: "string list \<Rightarrow> nat \<Rightarrow> string" where
  "itemText items index = (if index < length items then items ! index else [])"

datatype loop_outcome =
    Raised error
  | Returned
  | Completed "(pyval \<times> pyval) list"

text \<open>
  The loop of \<^verbatim>\<open>RunConfigDialog.accept\<close> from page \<open>index\<close> on, over the pages left:
  the outcome, the pages as \<^verbatim>\<open>get\<close> has left them, and the state. The entries
  appended by a page are in front of those of the pages after it.
\<close>

fun accept_pages ::
  "filesystem \<Rightarrow> string list option \<Rightarrow> int \<Rightarrow> nat \<Rightarrow> RunConfigOptions list \<Rightarrow> world \<Rightarrow>
     loop_outcome \<times> RunConfigOptions list \<times> world" where
  "accept_pages fs cb cur index [] w = (Completed [], [], w)"
| "accept_pages fs cb cur index (page # pages) w =
     (case cb of
        None \<Rightarrow> (Raised AttributeError, page # pages, w)
      | Some items \<Rightarrow>
          (let filename = itemText items index in
           case (if int index = cur then is_valid fs page w else (True, w)) of
             (False, w1) \<Rightarrow> (Returned, page # pages, w1)
           | (True, w1) \<Rightarrow>
               (case RunConfigOptions_get page of
                  (options, page') \<Rightarrow>
                    (case accept_pages fs cb cur (Suc index) pages w1 of
                       (Completed configurations, pages', w2) \<Rightarrow>
                         (Completed ((PStr filename, options) # configurations), page' # pages', w2)
                     | (outcome, pages', w2) \<Rightarrow> (outcome, page' # pages', w2)))))"

definition RunConfigDialog_accept ::
  "filesystem \<Rightarrow> RunConfigDialog \<Rightarrow> world \<Rightarrow> (error + unit) \<times> RunConfigDialog \<times> world" where
  "RunConfigDialog_accept fs self w =
     (case stack self of
        None \<Rightarrow> (Inl AttributeError, self, w)
      | Some st \<Rightarrow>
          (case accept_pages fs (combo self) (currentIndex st) 0 (widgets st) w of
             (outcome, pages', w1) \<Rightarrow>
               (let self' = self\<lparr>stack := Some (st\<lparr>widgets := pages'\<rparr>)\<rparr> in
                case outcome of
                  Raised e \<Rightarrow> (Inl e, self', w1)
                | Returned \<Rightarrow> (Inr (), self', w1)
                | Completed configurations \<Rightarrow>
                    (case set_run_configurations configurations (CONF w1) of
                       Inl e \<Rightarrow> (Inl e, self', w1)
                     | Inr conf' \<Rightarrow>
                         (Inr (), self'\<lparr>dialog_accepted := True\<rparr>, w1\<lparr>CONF := conf'\<rparr>)))))"

subsection \<open>An options widget for the examples\<close>

text \<open>
  The widget of the worked examples below: the first radio button of each group
  checked, every check box unchecked, both line edits empty.
\<close>

definition example_widget :: RunConfigOptions where
  "example_widget =
     \<lparr>options_dir = PNone, runconf = blank,
      current_radio = True, dedicated_radio = False, systerm_radio = False,
      clear_var_cb = False, console_ns_cb = False, post_mortem_cb = False,
      clo_cb = False, clo_edit = [],
      file_dir_radio = True, cwd_radio = False, fixed_dir_radio = False, wd_edit = [],
      interact_cb = False, pclo_cb = False, pclo_edit = [], firstrun_cb = False\<rparr>"

section \<open>Properties\<close>

subsection \<open>Auxiliary facts\<close>

lemma dict_get_Cons:
  "dict_get ((k, v) # kvs) key dflt = (if key = k then v else dict_get kvs key dflt)"
  by (simp add: dict_get_def)

lemma dict_get_Nil: "dict_get [] key dflt = dflt"
  by (simp add: dict_get_def)

subsection \<open>The configuration record\<close>

text \<open>
  C1. Take any options mapping and any two \<^verbatim>\<open>RunConfiguration\<close> objects, a fresh one
  in particular. \<^verbatim>\<open>set(options)\<close> on the first succeeds; \<^verbatim>\<open>set\<close> of the mapping
  that its \<^verbatim>\<open>get()\<close> returns succeeds on the second and gives the same value to each of
  args/enabled, args, current, systerm, interact, post_mortem, python_args/enabled,
  python_args, clear_namespace, console_namespace, file_dir, cw_dir, fixed_dir and dir,
  whatever the store holds at either call. The key \<^verbatim>\<open>workdir/enabled\<close> of the mapping
  is not read back: \<open>wdir_enabled\<close> of the second object stays as it was.
\<close>

theorem set_get_round_trip:
  "\<exists>rc1 rc2.
     RunConfiguration_set conf self (PDict options) = Inr rc1 \<and>
     RunConfiguration_set conf' other (RunConfiguration_get rc1) = Inr rc2 \<and>
     args_enabled rc2 = args_enabled rc1 \<and>
     args rc2 = args rc1 \<and>
     current rc2 = current rc1 \<and>
     systerm rc2 = systerm rc1 \<and>
     interact rc2 = interact rc1 \<and>
     post_mortem rc2 = post_mortem rc1 \<and>
     python_args_enabled rc2 = python_args_enabled rc1 \<and>
     python_args rc2 = python_args rc1 \<and>
     clear_namespace rc2 = clear_namespace rc1 \<and>
     console_namespace rc2 = console_namespace rc1 \<and>
     file_dir rc2 = file_dir rc1 \<and>
     cw_dir rc2 = cw_dir rc1 \<and>
     fixed_dir rc2 = fixed_dir rc1 \<and>
     dir rc2 = dir rc1 \<and>
     wdir_enabled rc2 = wdir_enabled other"
  by (simp add: RunConfiguration_get_def dict_get_Cons)

text \<open>
  C3. In every state, \<^verbatim>\<open>get_arguments()\<close> is the empty string when \<open>args_enabled\<close> is
  false, whatever \<open>args\<close> holds, and is \<open>args\<close> when \<open>args_enabled\<close> is true;
  \<^verbatim>\<open>get_python_arguments()\<close> does the same with \<open>python_args_enabled\<close> and
  \<open>python_args\<close>. Switching the flag off leaves the string stored: also when the
  options widget is read with both check boxes unchecked, the record keeps the texts of
  the two line edits while both getters return the empty string.
\<close>

theorem get_arguments_gated:
  "get_arguments (self\<lparr>args_enabled := PBool False, args := s\<rparr>) = PStr [] \<and>
   get_arguments (self\<lparr>args_enabled := PBool True, args := s\<rparr>) = s \<and>
   get_python_arguments (self\<lparr>python_args_enabled := PBool False, python_args := s\<rparr>) = PStr [] \<and>
   get_python_arguments (self\<lparr>python_args_enabled := PBool True, python_args := s\<rparr>) = s \<and>
   args (self\<lparr>args_enabled := PBool False\<rparr>) = args self \<and>
   python_args (self\<lparr>python_args_enabled := PBool False\<rparr>) = python_args self \<and>
   (let rc = runconf (snd (RunConfigOptions_get (widget\<lparr>clo_cb := False, pclo_cb := False\<rparr>)))
    in args rc = PStr (clo_edit widget) \<and> get_arguments rc = PStr [] \<and>
       python_args rc = PStr (pclo_edit widget) \<and> get_python_arguments rc = PStr [])"
  by (simp add: get_arguments_def get_python_arguments_def RunConfigOptions_get_def Let_def)

lemma init_wdir_enabled:
  "RunConfiguration_init conf = Inr fresh \<Longrightarrow> wdir_enabled fresh = PNone \<and> wdir fresh = PNone"
  unfolding RunConfiguration_init_def
  by (cases "CONF_get conf ''run'' ''defaultconfiguration'' (PDict [])") (auto simp: blank_def)

text \<open>
  C2, amended. For every options mapping, \<^verbatim>\<open>set(options)\<close> succeeds and assigns each
  of fourteen fields from the mapping when the key is there. Otherwise current, systerm,
  interact, post_mortem, clear_namespace, console_namespace, file_dir, cw_dir and
  fixed_dir take the value the store holds under their default key, or the literal
  handed to the store when it holds none; args, python_args and dir take the empty string
  and args/enabled, python_args/enabled take False. \<open>wdir_enabled\<close> and \<open>wdir\<close> are
  not assigned at all. With the store holding \<^verbatim>\<open>default/interpreter/current\<close> = True and
  no \<^verbatim>\<open>default/interpreter/systerm\<close> other than False, \<^verbatim>\<open>RunConfiguration().set({})\<close>
  gives current = True and systerm = False, and leaves \<open>wdir_enabled\<close> at \<^verbatim>\<open>None\<close>.
\<close>

theorem set_reads_options_then_defaults:
  "(\<exists>rc. RunConfiguration_set conf self (PDict options) = Inr rc \<and>
     args rc = (case map_of options ''args'' of Some v \<Rightarrow> v | None \<Rightarrow> PStr []) \<and>
     args_enabled rc =
       (case map_of options ''args/enabled'' of Some v \<Rightarrow> v | None \<Rightarrow> PBool False) \<and>
     current rc =
       (case map_of options ''current'' of Some v \<Rightarrow> v
        | None \<Rightarrow> (case conf (''run'', ''default/interpreter/current'') of
                     Some v \<Rightarrow> v | None \<Rightarrow> PBool True)) \<and>
     systerm rc =
       (case map_of options ''systerm'' of Some v \<Rightarrow> v
        | None \<Rightarrow> (case conf (''run'', ''default/interpreter/systerm'') of
                     Some v \<Rightarrow> v | None \<Rightarrow> PBool False)) \<and>
     interact rc =
       (case map_of options ''interact'' of Some v \<Rightarrow> v
        | None \<Rightarrow> (case conf (''run'', ''interact'') of Some v \<Rightarrow> v | None \<Rightarrow> PBool False)) \<and>
     post_mortem rc =
       (case map_of options ''post_mortem'' of Some v \<Rightarrow> v
        | None \<Rightarrow> (case conf (''run'', ''post_mortem'') of Some v \<Rightarrow> v | None \<Rightarrow> PBool False)) \<and>
     python_args rc = (case map_of options ''python_args'' of Some v \<Rightarrow> v | None \<Rightarrow> PStr []) \<and>
     python_args_enabled rc =
       (case map_of options ''python_args/enabled'' of Some v \<Rightarrow> v | None \<Rightarrow> PBool False) \<and>
     clear_namespace rc =
       (case map_of options ''clear_namespace'' of Some v \<Rightarrow> v
        | None \<Rightarrow> (case conf (''run'', ''clear_namespace'') of
                     Some v \<Rightarrow> v | None \<Rightarrow> PBool False)) \<and>
     console_namespace rc =
       (case map_of options ''console_namespace'' of Some v \<Rightarrow> v
        | None \<Rightarrow> (case conf (''run'', ''console_namespace'') of
                     Some v \<Rightarrow> v | None \<Rightarrow> PBool False)) \<and>
     file_dir rc =
       (case map_of options ''file_dir'' of Some v \<Rightarrow> v
        | None \<Rightarrow> (case conf (''run'', ''default/wdir/use_script_directory'') of
                     Some v \<Rightarrow> v | None \<Rightarrow> PBool True)) \<and>
     cw_dir rc =
       (case map_of options ''cw_dir'' of Some v \<Rightarrow> v
        | None \<Rightarrow> (case conf (''run'', ''default/wdir/use_cwd_directory'') of
                     Some v \<Rightarrow> v | None \<Rightarrow> PBool False)) \<and>
     fixed_dir rc =
       (case map_of options ''fixed_dir'' of Some v \<Rightarrow> v
        | None \<Rightarrow> (case conf (''run'', ''default/wdir/use_fixed_directory'') of
                     Some v \<Rightarrow> v | None \<Rightarrow> PBool False)) \<and>
     dir rc = (case map_of options ''dir'' of Some v \<Rightarrow> v | None \<Rightarrow> PStr []) \<and>
     wdir_enabled rc = wdir_enabled self \<and>
     wdir rc = wdir self) \<and>
   (conf (''run'', ''default/interpreter/current'') = Some (PBool True) \<and>
    (conf (''run'', ''default/interpreter/systerm'') = None \<or>
     conf (''run'', ''default/interpreter/systerm'') = Some (PBool False)) \<and>
    RunConfiguration_init conf = Inr fresh \<longrightarrow>
    (\<exists>rc. RunConfiguration_set conf fresh (PDict []) = Inr rc \<and>
       current rc = PBool True \<and> systerm rc = PBool False \<and> wdir_enabled rc = PNone))"
proof (intro conjI impI)
  assume h: "conf (''run'', ''default/interpreter/current'') = Some (PBool True) \<and>
    (conf (''run'', ''default/interpreter/systerm'') = None \<or>
     conf (''run'', ''default/interpreter/systerm'') = Some (PBool False)) \<and>
    RunConfiguration_init conf = Inr fresh"
  then have "wdir_enabled fresh = PNone"
    using init_wdir_enabled by blast
  with h show "\<exists>rc. RunConfiguration_set conf fresh (PDict []) = Inr rc \<and>
       current rc = PBool True \<and> systerm rc = PBool False \<and> wdir_enabled rc = PNone"
    by (auto simp: dict_get_def CONF_get_def CURRENT_INTERPRETER_OPTION_def
        SYSTERM_INTERPRETER_OPTION_def)
qed (simp add: dict_get_def CONF_get_def CURRENT_INTERPRETER_OPTION_def
        SYSTERM_INTERPRETER_OPTION_def WDIR_USE_SCRIPT_DIR_OPTION_def
        WDIR_USE_CWD_DIR_OPTION_def WDIR_USE_FIXED_DIR_OPTION_def)

text \<open>
  A run of the scenario: the store holds only \<^verbatim>\<open>default/interpreter/current\<close> = True;
  \<^verbatim>\<open>RunConfiguration()\<close> and then \<^verbatim>\<open>set({})\<close> both give the record shown.
\<close>

theorem set_reads_options_then_defaults_witness:
  "RunConfiguration_init [(''run'', ''default/interpreter/current'') \<mapsto> PBool True] =
     Inr \<lparr>args = PStr [], args_enabled = PBool False, wdir = PNone, wdir_enabled = PNone,
          current = PBool True, systerm = PBool False, interact = PBool False,
          post_mortem = PBool False, python_args = PStr [], python_args_enabled = PBool False,
          clear_namespace = PBool False, console_namespace = PBool False,
          file_dir = PBool True, cw_dir = PBool False, fixed_dir = PBool False,
          dir = PStr []\<rparr> \<and>
   RunConfiguration_set [(''run'', ''default/interpreter/current'') \<mapsto> PBool True]
     \<lparr>args = PStr [], args_enabled = PBool False, wdir = PNone, wdir_enabled = PNone,
      current = PBool True, systerm = PBool False, interact = PBool False,
      post_mortem = PBool False, python_args = PStr [], python_args_enabled = PBool False,
      clear_namespace = PBool False, console_namespace = PBool False,
      file_dir = PBool True, cw_dir = PBool False, fixed_dir = PBool False,
      dir = PStr []\<rparr> (PDict []) =
     Inr \<lparr>args = PStr [], args_enabled = PBool False, wdir = PNone, wdir_enabled = PNone,
          current = PBool True, systerm = PBool False, interact = PBool False,
          post_mortem = PBool False, python_args = PStr [], python_args_enabled = PBool False,
          clear_namespace = PBool False, console_namespace = PBool False,
          file_dir = PBool True, cw_dir = PBool False, fixed_dir = PBool False,
          dir = PStr []\<rparr>"
  (is "RunConfiguration_init ?c = Inr ?d \<and> _")
proof -
  have a: "?c (''run'', ''default/interpreter/current'') = Some (PBool True)" by simp
  have b: "?c (''run'', ''default/interpreter/systerm'') = None" by simp
  have c: "RunConfiguration_init ?c = Inr ?d"
    by (simp add: RunConfiguration_init_def CONF_get_def dict_get_def blank_def
        CURRENT_INTERPRETER_OPTION_def
        SYSTERM_INTERPRETER_OPTION_def WDIR_USE_SCRIPT_DIR_OPTION_def
        WDIR_USE_CWD_DIR_OPTION_def WDIR_USE_FIXED_DIR_OPTION_def)
  from set_reads_options_then_defaults [of ?c ?d "[]" ?d] a b c
  obtain rc where "RunConfiguration_set ?c ?d (PDict []) = Inr rc"
    and "args rc = PStr []" and "args_enabled rc = PBool False"
    and "current rc = PBool True" and "systerm rc = PBool False"
    and "interact rc = PBool False" and "post_mortem rc = PBool False"
    and "python_args rc = PStr []" and "python_args_enabled rc = PBool False"
    and "clear_namespace rc = PBool False" and "console_namespace rc = PBool False"
    and "file_dir rc = PBool True" and "cw_dir rc = PBool False" and "fixed_dir rc = PBool False"
    and "dir rc = PStr []" and "wdir_enabled rc = PNone" and "wdir rc = PNone"
    by auto
  then have "RunConfiguration_set ?c ?d (PDict []) = Inr ?d"
    by (cases rc) simp
  with c show ?thesis by simp
qed

text \<open>
  The statement that counts \<open>wdir_enabled\<close> among the fields with a literal default
  fails: in a new object, after \<^verbatim>\<open>set({})\<close>, and after
  \<^verbatim>\<open>set\<close> of a mapping that holds True under \<^verbatim>\<open>workdir/enabled\<close> and under
  \<^verbatim>\<open>wdir_enabled\<close>, the field is \<^verbatim>\<open>None\<close>: neither a value of the mapping nor a
  False or empty-string literal. And a store that holds True under both
  \<^verbatim>\<open>default/interpreter/current\<close> and \<^verbatim>\<open>default/interpreter/systerm\<close> gives
  systerm = True.
\<close>

theorem wdir_enabled_not_assigned_counterexample:
  "map_sum id wdir_enabled
     (RunConfiguration_init [(''run'', ''default/interpreter/current'') \<mapsto> PBool True]) =
     Inr PNone \<and>
   map_sum id wdir_enabled
     (RunConfiguration_set [(''run'', ''default/interpreter/current'') \<mapsto> PBool True] blank
        (PDict [])) = Inr PNone \<and>
   map_sum id wdir_enabled
     (RunConfiguration_set [(''run'', ''default/interpreter/current'') \<mapsto> PBool True] blank
        (PDict [(''workdir/enabled'', PBool True), (''wdir_enabled'', PBool True)])) = Inr PNone \<and>
   PNone \<noteq> PBool False \<and> PNone \<noteq> PBool True \<and> PNone \<noteq> PStr [] \<and>
   map_sum id systerm
     (RunConfiguration_set
        [(''run'', ''default/interpreter/current'') \<mapsto> PBool True,
         (''run'', ''default/interpreter/systerm'') \<mapsto> PBool True] blank
        (PDict [])) = Inr (PBool True)"
  by (simp add: RunConfiguration_init_def CONF_get_def blank_def dict_get_def
      SYSTERM_INTERPRETER_OPTION_def)

subsection \<open>Reading the history\<close>

lemma unpack2_tuple: "unpack2 (PTuple [a, b]) = Inr (a, b)"
  by (simp add: unpack2_def)

lemma unpack2_wrong_length:
  "py_iter bad = Inr parts \<Longrightarrow> length parts \<noteq> 2 \<Longrightarrow> unpack2 bad = Inl ValueError"
  by (auto simp: unpack2_def split: list.splits)

lemma existing_entries_tuples:
  "existing_entries fs (map (\<lambda>p. PTuple [PStr (fst p), snd p]) ps) =
     Inr (map (\<lambda>p. (PStr (fst p), snd p)) (filter (\<lambda>p. is_regular_file fs (fst p)) ps))"
  by (induction ps) (simp_all add: unpack2_tuple)


lemma existing_entries_append:
  "existing_entries fs (xs @ ys) =
     (case existing_entries fs xs of
        Inl e \<Rightarrow> Inl e
      | Inr a \<Rightarrow> (case existing_entries fs ys of Inl e \<Rightarrow> Inl e | Inr b \<Rightarrow> Inr (a @ b)))"
  by (induction xs) (auto split: sum.splits prod.splits)

lemma existing_entries_good:
  "\<forall>item \<in> set good. \<exists>f opts keep. unpack2 item = Inr (f, opts) \<and> osp_isfile fs f = Inr keep
   \<Longrightarrow> \<exists>entries. existing_entries fs good = Inr entries"
  by (induction good) (auto split: sum.splits prod.splits)

lemma existing_entries_bad:
  assumes "\<forall>item \<in> set good. \<exists>f opts keep. unpack2 item = Inr (f, opts) \<and> osp_isfile fs f = Inr keep"
    and "py_iter bad = Inr parts" and "length parts \<noteq> 2"
  shows "existing_entries fs (good @ bad # rest) = Inl ValueError"
proof -
  obtain entries where "existing_entries fs good = Inr entries"
    using existing_entries_good [OF assms(1)] by blast
  moreover have "existing_entries fs (bad # rest) = Inl ValueError"
    using unpack2_wrong_length [OF assms(2,3)] by simp
  ultimately show ?thesis
    by (simp add: existing_entries_append)
qed



lemma get_run_configurations_cases:
  "get_run_configurations fs conf =
     (case read_history fs conf (CONF_get conf ''run'' ''history'' (PInt 20)) of
        Inr configurations \<Rightarrow> (Inr configurations, conf)
      | Inl e \<Rightarrow> (if e = ValueError
                  then (Inr [], CONF_set conf ''run'' ''configurations'' (PList []))
                  else (Inl e, conf)))"
  by (simp add: get_run_configurations_def Let_def)

lemma get_run_configurations_frame:
  "get_run_configurations fs conf = (r, conf') \<Longrightarrow> k \<noteq> (''run'', ''configurations'') \<Longrightarrow>
   conf' k = conf k"
  by (auto simp: get_run_configurations_cases CONF_set_def split: sum.splits if_splits)

lemma get_run_configurations_history:
  "get_run_configurations fs conf = (r, conf') \<Longrightarrow>
   CONF_get conf' ''run'' ''history'' d = CONF_get conf ''run'' ''history'' d"
  using get_run_configurations_frame [of fs conf r conf' "(''run'', ''history'')"]
  by (simp add: CONF_get_def)

lemma get_run_configurations_tuples:
  assumes "CONF_get conf ''run'' ''configurations'' (PList []) =
             PList (map (\<lambda>p. PTuple [PStr (fst p), snd p]) ps)"
    and "CONF_get conf ''run'' ''history'' (PInt 20) = PInt n"
    and "0 \<le> n"
  shows "get_run_configurations fs conf =
           (Inr (take (nat n)
                  (map (\<lambda>p. (PStr (fst p), snd p))
                     (filter (\<lambda>p. is_regular_file fs (fst p)) ps))), conf)"
  using assms
  by (simp add: get_run_configurations_cases read_history_def existing_entries_tuples)

lemma scan_configurations_None:
  "(scan_configurations conf fname entries = Inr None) = (PStr fname \<notin> fst ` set entries)"
  by (induction entries) (auto split: sum.splits if_splits)

text \<open>
  C5. Let the store hold a list of \<^verbatim>\<open>(filename, options)\<close> tuples with string
  filenames, and a cap \<open>n \<ge> 0\<close> (the setting \<^verbatim>\<open>history\<close>, 20 when absent). The read
  returns the entries whose filename is a regular file, in their stored order, cut to
  the first \<open>n\<close> of them, and leaves the store as it is.
\<close>

theorem read_filters_then_truncates:
  assumes "CONF_get conf ''run'' ''configurations'' (PList []) =
             PList (map (\<lambda>p. PTuple [PStr (fst p), snd p]) ps)"
    and "CONF_get conf ''run'' ''history'' (PInt 20) = PInt n"
    and "0 \<le> n"
  shows "get_run_configurations fs conf =
           (Inr (take (nat n)
                  (map (\<lambda>p. (PStr (fst p), snd p))
                     (filter (\<lambda>p. is_regular_file fs (fst p)) ps))), conf)"
  using assms by (rule get_run_configurations_tuples)

text \<open>The example: cap 3, five stored entries A to E whose files all exist.\<close>

theorem read_filters_then_truncates_witness:
  "get_run_configurations
     \<lparr>is_regular_file = (\<lambda>path. path \<in> set [''A'', ''B'', ''C'', ''D'', ''E'']),
      is_directory = (\<lambda>path. False), fd_is_regular_file = (\<lambda>fd. False)\<rparr>
     [(''run'', ''history'') \<mapsto> PInt 3,
      (''run'', ''configurations'') \<mapsto>
        PList [PTuple [PStr ''A'', PDict []], PTuple [PStr ''B'', PDict []],
               PTuple [PStr ''C'', PDict []], PTuple [PStr ''D'', PDict []],
               PTuple [PStr ''E'', PDict []]]] =
   (Inr [(PStr ''A'', PDict []), (PStr ''B'', PDict []), (PStr ''C'', PDict [])],
    [(''run'', ''history'') \<mapsto> PInt 3,
     (''run'', ''configurations'') \<mapsto>
       PList [PTuple [PStr ''A'', PDict []], PTuple [PStr ''B'', PDict []],
              PTuple [PStr ''C'', PDict []], PTuple [PStr ''D'', PDict []],
              PTuple [PStr ''E'', PDict []]]])"
  (is "get_run_configurations ?fs ?c = _")
proof -
  let ?ps = "[(''A'', PDict []), (''B'', PDict []), (''C'', PDict []), (''D'', PDict []),
              (''E'', PDict [])]"
  have a: "CONF_get ?c ''run'' ''configurations'' (PList []) =
             PList (map (\<lambda>p. PTuple [PStr (fst p), snd p]) ?ps)"
    by (simp add: CONF_get_def)
  have b: "CONF_get ?c ''run'' ''history'' (PInt 20) = PInt 3"
    by (simp add: CONF_get_def)
  have c: "(0::int) \<le> 3" by simp
  have "take (nat 3) (map (\<lambda>p. (PStr (fst p), snd p))
          (filter (\<lambda>p. is_regular_file ?fs (fst p)) ?ps)) =
        [(PStr ''A'', PDict []), (PStr ''B'', PDict []), (PStr ''C'', PDict [])]"
    by (simp add: numeral_3_eq_3)
  with read_filters_then_truncates [OF a b c, of ?fs] show ?thesis
    by simp
qed

lemma py_iter_error: "py_iter v = Inl err \<Longrightarrow> err = TypeError"
  by (cases v) simp_all

lemma unpack2_not_iterable: "py_iter bad = Inl err \<Longrightarrow> unpack2 bad = Inl TypeError"
  by (auto simp: unpack2_def dest: py_iter_error)

lemma existing_entries_not_iterable:
  assumes "\<forall>item \<in> set good. \<exists>f opts keep. unpack2 item = Inr (f, opts) \<and> osp_isfile fs f = Inr keep"
    and "py_iter bad = Inl err"
  shows "existing_entries fs (good @ bad # rest) = Inl TypeError"
proof -
  obtain entries where "existing_entries fs good = Inr entries"
    using existing_entries_good [OF assms(1)] by blast
  moreover have "existing_entries fs (bad # rest) = Inl TypeError"
    using unpack2_not_iterable [OF assms(2)] by simp
  ultimately show ?thesis
    by (simp add: existing_entries_append)
qed

text \<open>
  C6, amended. Call an item readable when it unpacks into two parts and its first part
  passes the file test without an exception. When the stored value is iterable and the
  first item that is not readable is itself iterable but does not have exactly two
  parts, the read catches the ValueError, stores the empty list under
  \<^verbatim>\<open>configurations\<close> and returns the empty list. When the stored value is not
  iterable, or it is iterable and the first item that is not readable is not iterable,
  the read raises TypeError to its caller and leaves the store as it was. In no case
  does ValueError escape the read, and whenever an exception escapes the store is
  unchanged.
\<close>

theorem corrupt_history_reset:
  "(py_iter (CONF_get conf ''run'' ''configurations'' (PList [])) = Inr (good @ bad # rest) \<and>
    (\<forall>item \<in> set good.
       \<exists>f opts keep. unpack2 item = Inr (f, opts) \<and> osp_isfile fs f = Inr keep) \<and>
    py_iter bad = Inr parts \<and> length parts \<noteq> 2 \<longrightarrow>
      get_run_configurations fs conf =
        (Inr [], CONF_set conf ''run'' ''configurations'' (PList [])) \<and>
      CONF_get (CONF_set conf ''run'' ''configurations'' (PList [])) ''run'' ''configurations'' d =
        PList []) \<and>
   (py_iter (CONF_get conf ''run'' ''configurations'' (PList [])) = Inl err \<longrightarrow>
      get_run_configurations fs conf = (Inl TypeError, conf)) \<and>
   (py_iter (CONF_get conf ''run'' ''configurations'' (PList [])) = Inr (good @ bad # rest) \<and>
    (\<forall>item \<in> set good.
       \<exists>f opts keep. unpack2 item = Inr (f, opts) \<and> osp_isfile fs f = Inr keep) \<and>
    py_iter bad = Inl err \<longrightarrow>
      get_run_configurations fs conf = (Inl TypeError, conf)) \<and>
   (get_run_configurations fs conf = (Inl e, conf') \<longrightarrow> e \<noteq> ValueError \<and> conf' = conf)"
proof (intro conjI impI)
  assume h: "py_iter (CONF_get conf ''run'' ''configurations'' (PList [])) = Inr (good @ bad # rest) \<and>
    (\<forall>item \<in> set good.
       \<exists>f opts keep. unpack2 item = Inr (f, opts) \<and> osp_isfile fs f = Inr keep) \<and>
    py_iter bad = Inr parts \<and> length parts \<noteq> 2"
  then have "existing_entries fs (good @ bad # rest) = Inl ValueError"
    using existing_entries_bad [of good fs bad parts rest] by blast
  with h show "get_run_configurations fs conf =
        (Inr [], CONF_set conf ''run'' ''configurations'' (PList []))"
    by (simp add: get_run_configurations_cases read_history_def)
next
  show "CONF_get (CONF_set conf ''run'' ''configurations'' (PList [])) ''run'' ''configurations'' d =
        PList []"
    by (simp add: CONF_get_def CONF_set_def)
next
  assume h: "py_iter (CONF_get conf ''run'' ''configurations'' (PList [])) = Inl err"
  then have "err = TypeError" by (rule py_iter_error)
  with h show "get_run_configurations fs conf = (Inl TypeError, conf)"
    by (simp add: get_run_configurations_cases read_history_def)
next
  assume h: "py_iter (CONF_get conf ''run'' ''configurations'' (PList [])) = Inr (good @ bad # rest) \<and>
    (\<forall>item \<in> set good.
       \<exists>f opts keep. unpack2 item = Inr (f, opts) \<and> osp_isfile fs f = Inr keep) \<and>
    py_iter bad = Inl err"
  then have "existing_entries fs (good @ bad # rest) = Inl TypeError"
    using existing_entries_not_iterable [of good fs bad err rest] by blast
  with h show "get_run_configurations fs conf = (Inl TypeError, conf)"
    by (simp add: get_run_configurations_cases read_history_def)
next
  assume "get_run_configurations fs conf = (Inl e, conf')"
  then show "e \<noteq> ValueError" and "conf' = conf"
    by (auto simp: get_run_configurations_cases split: sum.splits if_splits)
qed

text \<open>
  Three stored values. A list whose second item is a tuple of three: the read returns
  the empty list and the store holds the empty list. The integer 7: TypeError, store
  kept. A list whose second item is \<^verbatim>\<open>None\<close>: TypeError, store kept.
\<close>

theorem corrupt_history_reset_witness:
  "get_run_configurations
     \<lparr>is_regular_file = (\<lambda>path. path \<in> set [''A'', ''B'']),
      is_directory = (\<lambda>path. False), fd_is_regular_file = (\<lambda>fd. False)\<rparr>
     [(''run'', ''configurations'') \<mapsto>
        PList [PTuple [PStr ''A'', PDict []], PTuple [PStr ''B'', PDict [], PInt 1]]] =
   (Inr [], [(''run'', ''configurations'') \<mapsto> PList []]) \<and>
   get_run_configurations
     \<lparr>is_regular_file = (\<lambda>path. path \<in> set [''A'', ''B'']),
      is_directory = (\<lambda>path. False), fd_is_regular_file = (\<lambda>fd. False)\<rparr>
     [(''run'', ''configurations'') \<mapsto> PInt 7] =
   (Inl TypeError, [(''run'', ''configurations'') \<mapsto> PInt 7]) \<and>
   get_run_configurations
     \<lparr>is_regular_file = (\<lambda>path. path \<in> set [''A'', ''B'']),
      is_directory = (\<lambda>path. False), fd_is_regular_file = (\<lambda>fd. False)\<rparr>
     [(''run'', ''configurations'') \<mapsto> PList [PTuple [PStr ''A'', PDict []], PNone]] =
   (Inl TypeError,
    [(''run'', ''configurations'') \<mapsto> PList [PTuple [PStr ''A'', PDict []], PNone]])"
  (is "get_run_configurations ?fs ?c = _ \<and> get_run_configurations ?fs ?c7 = _ \<and>
       get_run_configurations ?fs ?cn = _")
proof -
  let ?good = "[PTuple [PStr ''A'', PDict []]]"
  let ?bad = "PTuple [PStr ''B'', PDict [], PInt 1]"
  have b: "\<forall>item \<in> set ?good.
             \<exists>f opts keep. unpack2 item = Inr (f, opts) \<and> osp_isfile ?fs f = Inr keep"
    by (auto simp: unpack2_def)
  have a: "py_iter (CONF_get ?c ''run'' ''configurations'' (PList [])) = Inr (?good @ ?bad # [])"
    by (simp add: CONF_get_def)
  have c: "py_iter ?bad = Inr [PStr ''B'', PDict [], PInt 1]" by simp
  have d: "length [PStr ''B'', PDict [], PInt 1] \<noteq> 2" by simp
  from corrupt_history_reset [of ?c ?good ?bad "[]" ?fs "[PStr ''B'', PDict [], PInt 1]"] a b c d
  have "get_run_configurations ?fs ?c =
          (Inr [], CONF_set ?c ''run'' ''configurations'' (PList []))"
    by blast
  then have 1: "get_run_configurations ?fs ?c =
          (Inr [], [(''run'', ''configurations'') \<mapsto> PList []])"
    by (simp add: CONF_set_def)
  have "py_iter (CONF_get ?c7 ''run'' ''configurations'' (PList [])) = Inl TypeError"
    by (simp add: CONF_get_def)
  with corrupt_history_reset [where conf = ?c7 and err = TypeError and fs = ?fs]
  have 2: "get_run_configurations ?fs ?c7 = (Inl TypeError, ?c7)"
    by blast
  have "py_iter (CONF_get ?cn ''run'' ''configurations'' (PList [])) = Inr (?good @ PNone # [])"
    and "py_iter PNone = Inl TypeError"
    by (simp_all add: CONF_get_def)
  with corrupt_history_reset
         [where conf = ?cn and good = ?good and bad = PNone and rest = "[]" and err = TypeError
            and fs = ?fs] b
  have 3: "get_run_configurations ?fs ?cn = (Inl TypeError, ?cn)"
    by blast
  from 1 2 3 show ?thesis by blast
qed

text \<open>
  Not every value that cannot be read as pairs is reset: with the integer 5 stored, or
  a list of two \<^verbatim>\<open>None\<close>, the read raises TypeError to its caller and the store keeps
  the value.
\<close>

theorem not_iterable_counterexample:
  "get_run_configurations
     \<lparr>is_regular_file = (\<lambda>path. False), is_directory = (\<lambda>path. False),
      fd_is_regular_file = (\<lambda>fd. False)\<rparr>
     [(''run'', ''configurations'') \<mapsto> PInt 5] =
   (Inl TypeError, [(''run'', ''configurations'') \<mapsto> PInt 5]) \<and>
   get_run_configurations
     \<lparr>is_regular_file = (\<lambda>path. False), is_directory = (\<lambda>path. False),
      fd_is_regular_file = (\<lambda>fd. False)\<rparr>
     [(''run'', ''configurations'') \<mapsto> PList [PNone, PNone]] =
   (Inl TypeError, [(''run'', ''configurations'') \<mapsto> PList [PNone, PNone]])"
  by (simp add: get_run_configurations_def read_history_def CONF_get_def unpack2_def)



text \<open>
  C10. Let the store hold a list of \<^verbatim>\<open>(filename, options)\<close> tuples with string
  filenames, and a cap \<open>n \<ge> 0\<close>. \<^verbatim>\<open>get_run_configuration(fname)\<close> looks at the entries
  that pass the file test, cut to the first \<open>n\<close>: it returns \<^verbatim>\<open>None\<close> when \<open>fname\<close> is
  not among their filenames, in particular when \<open>fname\<close> is not a regular file, whatever
  the stored list holds; and when \<open>fname\<close> is among them it does not return \<^verbatim>\<open>None\<close>.
\<close>

theorem lookup_scans_filtered_view:
  assumes "CONF_get conf ''run'' ''configurations'' (PList []) =
             PList (map (\<lambda>p. PTuple [PStr (fst p), snd p]) ps)"
    and "CONF_get conf ''run'' ''history'' (PInt 20) = PInt n"
    and "0 \<le> n"
  shows "(fname \<notin> set (take (nat n) (map fst (filter (\<lambda>p. is_regular_file fs (fst p)) ps))) \<longrightarrow>
            get_run_configuration fs conf fname = (Inr None, conf)) \<and>
         (\<not> is_regular_file fs fname \<longrightarrow>
            get_run_configuration fs conf fname = (Inr None, conf)) \<and>
         (fname \<in> set (take (nat n) (map fst (filter (\<lambda>p. is_regular_file fs (fst p)) ps))) \<longrightarrow>
            fst (get_run_configuration fs conf fname) \<noteq> Inr None)"
proof -
  let ?kept = "filter (\<lambda>p. is_regular_file fs (fst p)) ps"
  let ?view = "take (nat n) (map (\<lambda>p. (PStr (fst p), snd p)) ?kept)"
  have r: "get_run_configuration fs conf fname = (scan_configurations conf fname ?view, conf)"
    by (simp add: get_run_configuration_def get_run_configurations_tuples [OF assms])
  have "map fst ?view = map PStr (take (nat n) (map fst ?kept))"
    by (simp add: take_map)
  then have "fst ` set ?view = PStr ` set (take (nat n) (map fst ?kept))"
    by (metis list.set_map)
  then have v: "(PStr fname \<notin> fst ` set ?view) = (fname \<notin> set (take (nat n) (map fst ?kept)))"
    by auto
  have "\<not> is_regular_file fs fname \<Longrightarrow> fname \<notin> set (take (nat n) (map fst ?kept))"
    by (auto dest!: in_set_takeD)
  with r v show ?thesis
    using scan_configurations_None [of conf fname ?view] by auto
qed

text \<open>
  Cap 2, stored entries A, B, C, D, the file B missing: the entries looked at are A and C.
  The lookup of B and of D returns \<^verbatim>\<open>None\<close> though both are stored; that of C does not.
\<close>

theorem lookup_scans_filtered_view_witness:
  "get_run_configuration
     \<lparr>is_regular_file = (\<lambda>path. path \<in> set [''A'', ''C'', ''D'']),
      is_directory = (\<lambda>path. False), fd_is_regular_file = (\<lambda>fd. False)\<rparr>
     [(''run'', ''history'') \<mapsto> PInt 2,
      (''run'', ''configurations'') \<mapsto>
        PList [PTuple [PStr ''A'', PDict []], PTuple [PStr ''B'', PDict []],
               PTuple [PStr ''C'', PDict []], PTuple [PStr ''D'', PDict []]]] ''B'' =
   (Inr None,
     [(''run'', ''history'') \<mapsto> PInt 2,
      (''run'', ''configurations'') \<mapsto>
        PList [PTuple [PStr ''A'', PDict []], PTuple [PStr ''B'', PDict []],
               PTuple [PStr ''C'', PDict []], PTuple [PStr ''D'', PDict []]]]) \<and>
   get_run_configuration
     \<lparr>is_regular_file = (\<lambda>path. path \<in> set [''A'', ''C'', ''D'']),
      is_directory = (\<lambda>path. False), fd_is_regular_file = (\<lambda>fd. False)\<rparr>
     [(''run'', ''history'') \<mapsto> PInt 2,
      (''run'', ''configurations'') \<mapsto>
        PList [PTuple [PStr ''A'', PDict []], PTuple [PStr ''B'', PDict []],
               PTuple [PStr ''C'', PDict []], PTuple [PStr ''D'', PDict []]]] ''D'' =
   (Inr None,
     [(''run'', ''history'') \<mapsto> PInt 2,
      (''run'', ''configurations'') \<mapsto>
        PList [PTuple [PStr ''A'', PDict []], PTuple [PStr ''B'', PDict []],
               PTuple [PStr ''C'', PDict []], PTuple [PStr ''D'', PDict []]]]) \<and>
   fst (get_run_configuration
     \<lparr>is_regular_file = (\<lambda>path. path \<in> set [''A'', ''C'', ''D'']),
      is_directory = (\<lambda>path. False), fd_is_regular_file = (\<lambda>fd. False)\<rparr>
     [(''run'', ''history'') \<mapsto> PInt 2,
      (''run'', ''configurations'') \<mapsto>
        PList [PTuple [PStr ''A'', PDict []], PTuple [PStr ''B'', PDict []],
               PTuple [PStr ''C'', PDict []], PTuple [PStr ''D'', PDict []]]] ''C'') \<noteq> Inr None"
  (is "get_run_configuration ?fs ?c ''B'' = _ \<and> _")
proof -
  let ?ps = "[(''A'', PDict []), (''B'', PDict []), (''C'', PDict []), (''D'', PDict [])]"
  have a: "CONF_get ?c ''run'' ''configurations'' (PList []) =
             PList (map (\<lambda>p. PTuple [PStr (fst p), snd p]) ?ps)"
    by (simp add: CONF_get_def)
  have b: "CONF_get ?c ''run'' ''history'' (PInt 20) = PInt 2"
    by (simp add: CONF_get_def)
  have c: "(0::int) \<le> 2" by simp
  have v: "take (nat 2) (map fst (filter (\<lambda>p. is_regular_file ?fs (fst p)) ?ps)) = [''A'', ''C'']"
    by (simp add: numeral_2_eq_2)
  have "\<not> is_regular_file ?fs ''B''" by simp
  with lookup_scans_filtered_view [OF a b c, where fname = "''B''" and fs = ?fs]
  have 1: "get_run_configuration ?fs ?c ''B'' = (Inr None, ?c)" by blast
  have "''D'' \<notin> set [''A'', ''C'']" by simp
  with lookup_scans_filtered_view [OF a b c, where fname = "''D''" and fs = ?fs] v
  have 2: "get_run_configuration ?fs ?c ''D'' = (Inr None, ?c)" by metis
  have "''C'' \<in> set [''A'', ''C'']" by simp
  with lookup_scans_filtered_view [OF a b c, where fname = "''C''" and fs = ?fs] v
  have 3: "fst (get_run_configuration ?fs ?c ''C'') \<noteq> Inr None" by metis
  from 1 2 3 show ?thesis by blast
qed

subsection \<open>Saving from the dialogs\<close>

lemma is_valid_cases:
  "is_valid fs widget w =
     (if \<not> fixed_dir_radio widget \<or> is_directory fs (wd_edit widget) then (True, w)
      else (False,
            w\<lparr>critical_boxes := critical_boxes w @
                 [(''Run configuration'',
                   ''The following working directory is not valid:<br><b>'' @ wd_edit widget @
                   ''</b>'')]\<rparr>))"
  by (simp add: is_valid_def osp_isdir_def Let_def)

lemma is_valid_CONF: "is_valid fs widget w = (b, w') \<Longrightarrow> CONF w' = CONF w"
  by (auto simp: is_valid_cases split: if_splits)

lemma set_run_configurations_nat:
  "CONF_get conf ''run'' ''history'' (PInt 20) = PInt n \<Longrightarrow> 0 \<le> n \<Longrightarrow>
   set_run_configurations cs conf =
     Inr (CONF_set conf ''run'' ''configurations'' (PList (map entry_tuple (take (nat n) cs))))"
  by (simp add: set_run_configurations_def Let_def)

lemma set_run_configurations_bound:
  assumes "set_run_configurations cs conf = Inr conf'"
    and "CONF_get conf ''run'' ''history'' (PInt 20) = PInt n" and "0 \<le> n"
  shows "\<exists>saved. conf' (''run'', ''configurations'') = Some (PList saved) \<and> int (length saved) \<le> n"
proof -
  from set_run_configurations_nat [OF assms(2,3), of cs] assms(1)
  have "conf' = CONF_set conf ''run'' ''configurations'' (PList (map entry_tuple (take (nat n) cs)))"
    by simp
  with assms(3) show ?thesis
    by (simp add: CONF_set_def)
qed

lemma accept_valid:
  assumes "runconfigoptions self = Some widget"
    and "\<not> fixed_dir_radio widget \<or> is_directory fs (wd_edit widget)"
    and "get_run_configurations fs (CONF w) = (Inr history, conf2)"
    and "set_run_configurations ((filename self, fst (RunConfigOptions_get widget)) # history) conf2
           = Inr conf3"
  shows "RunConfigOneDialog_accept fs self w =
           (Inr (),
            self\<lparr>runconfigoptions := Some (snd (RunConfigOptions_get widget)), accepted := True\<rparr>,
            w\<lparr>CONF := conf3\<rparr>)"
proof (cases "RunConfigOptions_get widget")
  case (Pair options widget')
  with assms show ?thesis
    by (simp add: RunConfigOneDialog_accept_def is_valid_cases Let_def)
qed

lemma accept_invalid:
  assumes "runconfigoptions self = Some widget"
    and "fixed_dir_radio widget" and "\<not> is_directory fs (wd_edit widget)"
  shows "RunConfigOneDialog_accept fs self w =
           (Inr (), self,
            w\<lparr>critical_boxes := critical_boxes w @
                 [(''Run configuration'',
                   ''The following working directory is not valid:<br><b>'' @ wd_edit widget @
                   ''</b>'')]\<rparr>)"
  using assms
  by (simp add: RunConfigOneDialog_accept_def is_valid_cases)

lemma accept_pages_CONF:
  "accept_pages fs cb cur index pages w = (outcome, pages', w') \<Longrightarrow> CONF w' = CONF w"
proof (induction pages arbitrary: index w outcome pages' w')
  case Nil
  then show ?case by simp
next
  case (Cons page pages)
  show ?case
  proof (cases cb)
    case None
    with Cons.prems show ?thesis by simp
  next
    case (Some items)
    obtain b w1 where v: "(if int index = cur then is_valid fs page w else (True, w)) = (b, w1)"
      by (cases "if int index = cur then is_valid fs page w else (True, w)")
    then have c1: "CONF w1 = CONF w"
      by (auto split: if_splits dest: is_valid_CONF)
    show ?thesis
    proof (cases b)
      case False
      with Cons.prems Some v c1 show ?thesis by (simp add: Let_def)
    next
      case True
      obtain options page' where g: "RunConfigOptions_get page = (options, page')"
        by (cases "RunConfigOptions_get page")
      obtain out2 pages2 w2 where
        r: "accept_pages fs cb cur (Suc index) pages w1 = (out2, pages2, w2)"
        by (cases "accept_pages fs cb cur (Suc index) pages w1")
      from Cons.IH [OF r] have "CONF w2 = CONF w1" .
      moreover from Cons.prems Some v True g r have "w' = w2"
        by (cases out2) (simp_all add: Let_def)
      ultimately show ?thesis using c1 by simp
    qed
  qed
qed

lemma one_accept_saved:
  assumes "RunConfigOneDialog_accept fs one w = (r, one', w')"
    and "\<not> accepted one" and "accepted one'"
  shows "\<exists>cs conf2 res. get_run_configurations fs (CONF w) = (res, conf2) \<and>
           set_run_configurations cs conf2 = Inr (CONF w')"
proof (cases "runconfigoptions one")
  case None
  with assms show ?thesis by (auto simp: RunConfigOneDialog_accept_def)
next
  case (Some widget)
  obtain b w1 where v: "is_valid fs widget w = (b, w1)" by (cases "is_valid fs widget w")
  then have c1: "CONF w1 = CONF w" by (rule is_valid_CONF)
  obtain res conf2 where g: "get_run_configurations fs (CONF w) = (res, conf2)"
    by (cases "get_run_configurations fs (CONF w)")
  obtain options widget' where o: "RunConfigOptions_get widget = (options, widget')"
    by (cases "RunConfigOptions_get widget")
  show ?thesis
  proof (cases b)
    case False
    with assms Some v show ?thesis by (auto simp: RunConfigOneDialog_accept_def)
  next
    case True
    show ?thesis
    proof (cases res)
      case (Inl e)
      with assms Some v True g c1 show ?thesis by (auto simp: RunConfigOneDialog_accept_def)
    next
      case (Inr history)
      show ?thesis
      proof (cases "set_run_configurations ((filename one, options) # history) conf2")
        case (Inl e)
        with assms Some v True g c1 Inr o show ?thesis
          by (auto simp: RunConfigOneDialog_accept_def Let_def)
      next
        case i: (Inr conf3)
        with assms Some v True g c1 Inr o have "CONF w' = conf3"
          by (auto simp: RunConfigOneDialog_accept_def Let_def)
        with i g show ?thesis by blast
      qed
    qed
  qed
qed

lemma dialog_accept_saved:
  assumes "RunConfigDialog_accept fs dlg w = (r, dlg', w')"
    and "\<not> dialog_accepted dlg" and "dialog_accepted dlg'"
  shows "\<exists>cs. set_run_configurations cs (CONF w) = Inr (CONF w')"
proof (cases "stack dlg")
  case None
  with assms show ?thesis by (auto simp: RunConfigDialog_accept_def)
next
  case (Some st)
  obtain outcome pages' w1 where
    l: "accept_pages fs (combo dlg) (currentIndex st) 0 (widgets st) w = (outcome, pages', w1)"
    by (cases "accept_pages fs (combo dlg) (currentIndex st) 0 (widgets st) w")
  then have c1: "CONF w1 = CONF w" by (rule accept_pages_CONF)
  show ?thesis
  proof (cases outcome)
    case (Raised e)
    with assms Some l show ?thesis by (auto simp: RunConfigDialog_accept_def Let_def)
  next
    case Returned
    with assms Some l show ?thesis by (auto simp: RunConfigDialog_accept_def Let_def)
  next
    case (Completed cs)
    show ?thesis
    proof (cases "set_run_configurations cs (CONF w1)")
      case (Inl e)
      with assms Some l Completed show ?thesis by (auto simp: RunConfigDialog_accept_def Let_def)
    next
      case (Inr conf')
      with assms Some l Completed have "CONF w' = conf'"
        by (auto simp: RunConfigDialog_accept_def Let_def)
      with Inr c1 show ?thesis by auto
    qed
  qed
qed

text \<open>
  C9. Take the single-file dialog with its options widget. When the fixed-directory
  button is checked and the text of the directory field is not an existing directory,
  \<^verbatim>\<open>is_valid\<close> shows one critical box whose text holds that path and returns False;
  \<^verbatim>\<open>accept\<close> then returns at once, with the store and the dialog as they were. When
  the button is not checked, or the directory exists, \<^verbatim>\<open>is_valid\<close> returns True with
  no box shown, and \<^verbatim>\<open>accept\<close> goes on: once the history is read and the new list is
  written without an exception, the store holds the written list and the dialog is
  accepted.
\<close>

theorem invalid_fixed_directory_rejected:
  assumes "runconfigoptions self = Some widget"
  shows "(fixed_dir_radio widget \<and> \<not> is_directory fs (wd_edit widget) \<longrightarrow>
            fst (is_valid fs widget w) = False \<and>
            critical_boxes (snd (is_valid fs widget w)) =
              critical_boxes w @
                [(''Run configuration'',
                  ''The following working directory is not valid:<br><b>'' @ wd_edit widget @
                  ''</b>'')] \<and>
            RunConfigOneDialog_accept fs self w = (Inr (), self, snd (is_valid fs widget w)) \<and>
            CONF (snd (is_valid fs widget w)) = CONF w) \<and>
         (\<not> fixed_dir_radio widget \<or> is_directory fs (wd_edit widget) \<longrightarrow>
            is_valid fs widget w = (True, w) \<and>
            (\<forall>history conf2 conf3.
               get_run_configurations fs (CONF w) = (Inr history, conf2) \<and>
               set_run_configurations
                 ((filename self, fst (RunConfigOptions_get widget)) # history) conf2 = Inr conf3 \<longrightarrow>
               RunConfigOneDialog_accept fs self w =
                 (Inr (),
                  self\<lparr>runconfigoptions := Some (snd (RunConfigOptions_get widget)),
                       accepted := True\<rparr>,
                  w\<lparr>CONF := conf3\<rparr>)))"
proof (intro conjI impI allI)
  assume "\<not> fixed_dir_radio widget \<or> is_directory fs (wd_edit widget)"
  then show "is_valid fs widget w = (True, w)"
    by (simp add: is_valid_cases)
next
  fix history conf2 conf3
  assume "\<not> fixed_dir_radio widget \<or> is_directory fs (wd_edit widget)"
    and "get_run_configurations fs (CONF w) = (Inr history, conf2) \<and>
         set_run_configurations
           ((filename self, fst (RunConfigOptions_get widget)) # history) conf2 = Inr conf3"
  then show "RunConfigOneDialog_accept fs self w =
                 (Inr (),
                  self\<lparr>runconfigoptions := Some (snd (RunConfigOptions_get widget)),
                       accepted := True\<rparr>,
                  w\<lparr>CONF := conf3\<rparr>)"
    using accept_valid [OF assms] by blast
qed (use assms in \<open>simp_all add: accept_invalid is_valid_cases\<close>)

text \<open>
  Only \<^verbatim>\<open>/tmp\<close> is a directory. With \<^verbatim>\<open>/nowhere\<close> entered, \<^verbatim>\<open>accept\<close> shows the
  box and changes nothing else; with \<^verbatim>\<open>/tmp\<close> entered it stores the entry and accepts.
\<close>

theorem invalid_fixed_directory_rejected_witness:
  "RunConfigOneDialog_accept
     \<lparr>is_regular_file = (\<lambda>path. False), is_directory = (\<lambda>path. path = ''/tmp''),
      fd_is_regular_file = (\<lambda>fd. False)\<rparr>
     \<lparr>filename = PStr ''A'',
      runconfigoptions = Some (example_widget\<lparr>fixed_dir_radio := True, wd_edit := ''/nowhere''\<rparr>),
      accepted = False\<rparr>
     \<lparr>CONF = Map.empty, critical_boxes = []\<rparr> =
   (Inr (),
    \<lparr>filename = PStr ''A'',
     runconfigoptions = Some (example_widget\<lparr>fixed_dir_radio := True, wd_edit := ''/nowhere''\<rparr>),
     accepted = False\<rparr>,
    \<lparr>CONF = Map.empty,
     critical_boxes =
       [(''Run configuration'',
         ''The following working directory is not valid:<br><b>/nowhere</b>'')]\<rparr>) \<and>
   RunConfigOneDialog_accept
     \<lparr>is_regular_file = (\<lambda>path. False), is_directory = (\<lambda>path. path = ''/tmp''),
      fd_is_regular_file = (\<lambda>fd. False)\<rparr>
     \<lparr>filename = PStr ''A'',
      runconfigoptions = Some (example_widget\<lparr>fixed_dir_radio := True, wd_edit := ''/tmp''\<rparr>),
      accepted = False\<rparr>
     \<lparr>CONF = Map.empty, critical_boxes = []\<rparr> =
   (Inr (),
    \<lparr>filename = PStr ''A'',
     runconfigoptions =
       Some (snd (RunConfigOptions_get
                    (example_widget\<lparr>fixed_dir_radio := True, wd_edit := ''/tmp''\<rparr>))),
     accepted = True\<rparr>,
    \<lparr>CONF =
       [(''run'', ''configurations'') \<mapsto>
          PList [PTuple [PStr ''A'',
                   fst (RunConfigOptions_get
                          (example_widget\<lparr>fixed_dir_radio := True, wd_edit := ''/tmp''\<rparr>))]]],
     critical_boxes = []\<rparr>)"
  (is "RunConfigOneDialog_accept ?fs ?bad ?w = _ \<and> RunConfigOneDialog_accept ?fs ?good ?w = _")
proof -
  let ?wb = "example_widget\<lparr>fixed_dir_radio := True, wd_edit := ''/nowhere''\<rparr>"
  let ?wg = "example_widget\<lparr>fixed_dir_radio := True, wd_edit := ''/tmp''\<rparr>"
  have b1: "runconfigoptions ?bad = Some ?wb" by simp
  have b2: "fixed_dir_radio ?wb \<and> \<not> is_directory ?fs (wd_edit ?wb)" by simp
  from invalid_fixed_directory_rejected [OF b1, of ?fs ?w] b2
  have "RunConfigOneDialog_accept ?fs ?bad ?w = (Inr (), ?bad, snd (is_valid ?fs ?wb ?w))"
    and "critical_boxes (snd (is_valid ?fs ?wb ?w)) =
           critical_boxes ?w @
             [(''Run configuration'',
               ''The following working directory is not valid:<br><b>'' @ wd_edit ?wb @ ''</b>'')]"
    and "CONF (snd (is_valid ?fs ?wb ?w)) = CONF ?w"
    by blast+
  then have 1: "RunConfigOneDialog_accept ?fs ?bad ?w =
      (Inr (), ?bad,
       \<lparr>CONF = Map.empty,
        critical_boxes =
          [(''Run configuration'',
            ''The following working directory is not valid:<br><b>/nowhere</b>'')]\<rparr>)"
    by (cases "snd (is_valid ?fs ?wb ?w)") simp
  have g1: "runconfigoptions ?good = Some ?wg" by simp
  have g2: "\<not> fixed_dir_radio ?wg \<or> is_directory ?fs (wd_edit ?wg)" by simp
  have g3: "get_run_configurations ?fs (CONF ?w) = (Inr [], Map.empty)"
    by (simp add: get_run_configurations_def read_history_def CONF_get_def)
  have g4: "set_run_configurations
              ((filename ?good, fst (RunConfigOptions_get ?wg)) # []) Map.empty =
            Inr [(''run'', ''configurations'') \<mapsto>
                   PList [PTuple [PStr ''A'', fst (RunConfigOptions_get ?wg)]]]"
    by (simp add: set_run_configurations_def CONF_get_def CONF_set_def entry_tuple_def)
  from invalid_fixed_directory_rejected [OF g1, of ?fs ?w] g2 g3 g4
  have 2: "RunConfigOneDialog_accept ?fs ?good ?w =
      (Inr (),
       ?good\<lparr>runconfigoptions := Some (snd (RunConfigOptions_get ?wg)), accepted := True\<rparr>,
       ?w\<lparr>CONF := [(''run'', ''configurations'') \<mapsto>
                   PList [PTuple [PStr ''A'', fst (RunConfigOptions_get ?wg)]]]\<rparr>)"
    by blast
  from 1 2 show ?thesis by simp
qed

text \<open>
  C8. Let validation pass, let the read of the history return the list \<open>history\<close>, and
  let the cap be \<open>n \<ge> 0\<close>. Then \<^verbatim>\<open>accept\<close> of the single-file dialog stores the first
  \<open>n\<close> entries of the list that has the new pair \<^verbatim>\<open>(filename, options)\<close> in front of
  \<open>history\<close>. Nothing is removed from \<open>history\<close> but what the cap cuts: the new pair is
  at position 0 and the entry that was at position \<open>i\<close> is at position \<open>i + 1\<close>, an
  entry for the same filename as any other.
\<close>

theorem single_file_save_prepends:
  assumes "runconfigoptions self = Some widget"
    and "\<not> fixed_dir_radio widget \<or> is_directory fs (wd_edit widget)"
    and "get_run_configurations fs (CONF w) = (Inr history, conf2)"
    and "CONF_get (CONF w) ''run'' ''history'' (PInt 20) = PInt n"
    and "0 \<le> n"
  shows "(let new = (filename self, fst (RunConfigOptions_get widget));
              saved = take (nat n) (new # history)
          in fst (RunConfigOneDialog_accept fs self w) = Inr () \<and>
             CONF (snd (snd (RunConfigOneDialog_accept fs self w))) =
               CONF_set conf2 ''run'' ''configurations'' (PList (map entry_tuple saved)) \<and>
             (0 < n \<longrightarrow> saved ! 0 = new) \<and>
             (\<forall>i. i < length history \<and> int i + 1 < n \<longrightarrow> saved ! (i + 1) = history ! i))"
proof -
  have "CONF_get conf2 ''run'' ''history'' (PInt 20) = PInt n"
    using get_run_configurations_history [OF assms(3)] assms(4) by simp
  then have "set_run_configurations
      ((filename self, fst (RunConfigOptions_get widget)) # history) conf2 =
      Inr (CONF_set conf2 ''run'' ''configurations''
        (PList (map entry_tuple
           (take (nat n) ((filename self, fst (RunConfigOptions_get widget)) # history)))))"
    using assms(5) by (rule set_run_configurations_nat)
  from accept_valid [OF assms(1,2,3) this] assms(5) show ?thesis
    by (auto simp: Let_def nth_Cons' take_Cons')
qed

text \<open>
  The history holds a.py, b.py, foo.py, c.py and foo.py is saved again: the stored list
  has the new entry for foo.py at position 0 and the old one at position 3.
\<close>

theorem single_file_save_prepends_witness:
  "CONF (snd (snd (RunConfigOneDialog_accept
     \<lparr>is_regular_file = (\<lambda>path. path \<in> set [''foo.py'', ''a.py'', ''b.py'', ''c.py'']),
      is_directory = (\<lambda>path. False), fd_is_regular_file = (\<lambda>fd. False)\<rparr>
     \<lparr>filename = PStr ''foo.py'', runconfigoptions = Some example_widget, accepted = False\<rparr>
     \<lparr>CONF =
        [(''run'', ''configurations'') \<mapsto>
           PList [PTuple [PStr ''a.py'', PDict []], PTuple [PStr ''b.py'', PDict []],
                  PTuple [PStr ''foo.py'', PDict [(''args'', PStr ''--old'')]],
                  PTuple [PStr ''c.py'', PDict []]]],
      critical_boxes = []\<rparr>)))
     (''run'', ''configurations'') =
   Some (PList [PTuple [PStr ''foo.py'', fst (RunConfigOptions_get example_widget)],
                PTuple [PStr ''a.py'', PDict []], PTuple [PStr ''b.py'', PDict []],
                PTuple [PStr ''foo.py'', PDict [(''args'', PStr ''--old'')]],
                PTuple [PStr ''c.py'', PDict []]])"
  (is "CONF (snd (snd (RunConfigOneDialog_accept ?fs ?d ?w))) _ = _")
proof -
  let ?history = "[(PStr ''a.py'', PDict []), (PStr ''b.py'', PDict []),
                   (PStr ''foo.py'', PDict [(''args'', PStr ''--old'')]),
                   (PStr ''c.py'', PDict [])]"
  have a: "runconfigoptions ?d = Some example_widget" by simp
  have b: "\<not> fixed_dir_radio example_widget \<or> is_directory ?fs (wd_edit example_widget)"
    by (simp add: example_widget_def)
  have c: "get_run_configurations ?fs (CONF ?w) = (Inr ?history, CONF ?w)"
    by (simp add: get_run_configurations_def read_history_def CONF_get_def unpack2_def)
  have d: "CONF_get (CONF ?w) ''run'' ''history'' (PInt 20) = PInt 20"
    by (simp add: CONF_get_def)
  have e: "(0::int) \<le> 20" by simp
  from single_file_save_prepends [OF a b c d e]
  have "CONF (snd (snd (RunConfigOneDialog_accept ?fs ?d ?w))) =
          CONF_set (CONF ?w) ''run'' ''configurations''
            (PList (map entry_tuple
               (take (nat 20) ((filename ?d, fst (RunConfigOptions_get example_widget)) # ?history))))"
    by (simp add: Let_def)
  then show ?thesis
    by (simp add: CONF_set_def entry_tuple_def)
qed

text \<open>
  C4. Let the cap be \<open>n \<ge> 0\<close>: the setting \<^verbatim>\<open>history\<close> holds the integer \<open>n\<close>, or is
  absent and \<open>n\<close> is 20. Whenever a call of \<^verbatim>\<open>accept\<close>, of the single-file dialog or of
  the multi-file dialog, accepts the dialog (which it does right after writing the
  history), the store holds a list of at most \<open>n\<close> entries under \<^verbatim>\<open>configurations\<close>.
\<close>

theorem saved_history_within_cap:
  assumes "CONF_get (CONF w) ''run'' ''history'' (PInt 20) = PInt n" and "0 \<le> n"
  shows "(RunConfigOneDialog_accept fs one w = (r1, one', w1) \<and>
            \<not> accepted one \<and> accepted one' \<longrightarrow>
            (\<exists>saved. CONF w1 (''run'', ''configurations'') = Some (PList saved) \<and>
                     int (length saved) \<le> n)) \<and>
         (RunConfigDialog_accept fs dlg w = (r2, dlg', w2) \<and>
            \<not> dialog_accepted dlg \<and> dialog_accepted dlg' \<longrightarrow>
            (\<exists>saved. CONF w2 (''run'', ''configurations'') = Some (PList saved) \<and>
                     int (length saved) \<le> n))"
proof (intro conjI impI)
  assume "RunConfigOneDialog_accept fs one w = (r1, one', w1) \<and> \<not> accepted one \<and> accepted one'"
  then obtain cs conf2 res where g: "get_run_configurations fs (CONF w) = (res, conf2)"
    and s: "set_run_configurations cs conf2 = Inr (CONF w1)"
    using one_accept_saved by blast
  have "CONF_get conf2 ''run'' ''history'' (PInt 20) = PInt n"
    using get_run_configurations_history [OF g] assms(1) by simp
  from set_run_configurations_bound [OF s this assms(2)]
  show "\<exists>saved. CONF w1 (''run'', ''configurations'') = Some (PList saved) \<and>
          int (length saved) \<le> n" .
next
  assume "RunConfigDialog_accept fs dlg w = (r2, dlg', w2) \<and>
            \<not> dialog_accepted dlg \<and> dialog_accepted dlg'"
  then obtain cs where s: "set_run_configurations cs (CONF w) = Inr (CONF w2)"
    using dialog_accept_saved by blast
  from set_run_configurations_bound [OF s assms]
  show "\<exists>saved. CONF w2 (''run'', ''configurations'') = Some (PList saved) \<and>
          int (length saved) \<le> n" .
qed

text \<open>
  Cap 2. The single-file dialog saves c.py over a history of two and two entries are
  stored; the multi-file dialog saves three pages and two entries are stored.
\<close>

theorem saved_history_within_cap_witness:
  "CONF (snd (snd (RunConfigOneDialog_accept
     \<lparr>is_regular_file = (\<lambda>path. path \<in> set [''a.py'', ''b.py'', ''c.py'']),
      is_directory = (\<lambda>path. False), fd_is_regular_file = (\<lambda>fd. False)\<rparr>
     \<lparr>filename = PStr ''c.py'', runconfigoptions = Some example_widget, accepted = False\<rparr>
     \<lparr>CONF =
        [(''run'', ''history'') \<mapsto> PInt 2,
         (''run'', ''configurations'') \<mapsto>
           PList [PTuple [PStr ''a.py'', PDict []], PTuple [PStr ''b.py'', PDict []]]],
      critical_boxes = []\<rparr>)))
     (''run'', ''configurations'') =
   Some (PList [PTuple [PStr ''c.py'', fst (RunConfigOptions_get example_widget)],
                PTuple [PStr ''a.py'', PDict []]]) \<and>
   CONF (snd (snd (RunConfigDialog_accept
     \<lparr>is_regular_file = (\<lambda>path. path \<in> set [''a.py'', ''b.py'', ''c.py'']),
      is_directory = (\<lambda>path. False), fd_is_regular_file = (\<lambda>fd. False)\<rparr>
     \<lparr>file_to_run = PNone, combo = Some [''a.py'', ''b.py'', ''c.py''],
      stack = Some \<lparr>widgets = [example_widget, example_widget, example_widget],
                    currentIndex = 0\<rparr>,
      dialog_accepted = False\<rparr>
     \<lparr>CONF =
        [(''run'', ''history'') \<mapsto> PInt 2,
         (''run'', ''configurations'') \<mapsto>
           PList [PTuple [PStr ''a.py'', PDict []], PTuple [PStr ''b.py'', PDict []]]],
      critical_boxes = []\<rparr>)))
     (''run'', ''configurations'') =
   Some (PList [PTuple [PStr ''a.py'', fst (RunConfigOptions_get example_widget)],
                PTuple [PStr ''b.py'', fst (RunConfigOptions_get example_widget)]]) \<and>
   int (length [PTuple [PStr ''c.py'', fst (RunConfigOptions_get example_widget)],
                PTuple [PStr ''a.py'', PDict []]]) \<le> 2 \<and>
   int (length [PTuple [PStr ''a.py'', fst (RunConfigOptions_get example_widget)],
                PTuple [PStr ''b.py'', fst (RunConfigOptions_get example_widget)]]) \<le> 2"
  (is "CONF (snd (snd (RunConfigOneDialog_accept ?fs ?one ?w))) ?k = Some (PList ?s1) \<and>
       CONF (snd (snd (RunConfigDialog_accept ?fs ?dlg ?w))) ?k = Some (PList ?s2) \<and> _")
proof -
  let ?A1 = "RunConfigOneDialog_accept ?fs ?one ?w"
  let ?A2 = "RunConfigDialog_accept ?fs ?dlg ?w"
  have a: "CONF_get (CONF ?w) ''run'' ''history'' (PInt 20) = PInt 2"
    by (simp add: CONF_get_def)
  have b: "(0::int) \<le> 2" by simp
  have f: "\<not> fixed_dir_radio example_widget"
    by (simp add: example_widget_def)
  have v1: "accepted (fst (snd ?A1)) \<and> CONF (snd (snd ?A1)) ?k = Some (PList ?s1)"
    by (simp add: RunConfigOneDialog_accept_def is_valid_cases f case_prod_beta
        get_run_configurations_def read_history_def CONF_get_def unpack2_def
        set_run_configurations_def CONF_set_def entry_tuple_def Let_def numeral_2_eq_2)
  have v2: "dialog_accepted (fst (snd ?A2)) \<and> CONF (snd (snd ?A2)) ?k = Some (PList ?s2)"
    by (simp add: RunConfigDialog_accept_def is_valid_cases f case_prod_beta itemText_def
        CONF_get_def set_run_configurations_def CONF_set_def entry_tuple_def Let_def
        numeral_2_eq_2)
  have e1: "?A1 = (fst ?A1, fst (snd ?A1), snd (snd ?A1))" by simp
  have e2: "?A2 = (fst ?A2, fst (snd ?A2), snd (snd ?A2))" by simp
  from saved_history_within_cap [OF a b, of ?fs ?one "fst ?A1" "fst (snd ?A1)" "snd (snd ?A1)"
      ?dlg "fst ?A2" "fst (snd ?A2)" "snd (snd ?A2)"] e1 e2 v1 v2
  have "(\<exists>saved. CONF (snd (snd ?A1)) ?k = Some (PList saved) \<and> int (length saved) \<le> 2) \<and>
        (\<exists>saved. CONF (snd (snd ?A2)) ?k = Some (PList saved) \<and> int (length saved) \<le> 2)"
    by simp
  with v1 v2 show ?thesis by simp
qed

end
